theory Spec2Isabelle
  imports Main "HOL-Library.Word" "HOL-Library.Sublist"
begin

section \<open>Deployment assets: default resource requests (assets.go)\<close>

text \<open>
  \<^verbatim>\<open>type backend int\<close> with the constants \<^verbatim>\<open>localBackend = iota\<close> (0),
  \<^verbatim>\<open>amazonBackend\<close> (1), \<^verbatim>\<open>googleBackend\<close> (2), \<^verbatim>\<open>microsoftBackend\<close> (3) and
  \<^verbatim>\<open>minioBackend\<close> (4). The Go type is an integer type, so a value outside the five
  constants is a backend too; the model keeps that.
\<close>

type_synonym backend = int

definition localBackend :: backend where
  "localBackend = 0"

definition amazonBackend :: backend where
  "amazonBackend = 1"

definition googleBackend :: backend where
  "googleBackend = 2"

definition microsoftBackend :: backend where
  "microsoftBackend = 3"

definition minioBackend :: backend where
  "minioBackend = 4"

text \<open>The struct \<^verbatim>\<open>AssetOpts\<close>, field by field, in the order of the source.\<close>

record AssetOpts =
  PachdShards :: "64 word"
  Version :: string
  LogLevel :: string
  Metrics :: bool
  Dynamic :: bool
  EtcdNodes :: int
  EtcdVolume :: string
  DashOnly :: bool
  NoDash :: bool
  DashImage :: string
  Registry :: string
  EtcdPrefix :: string
  NoGuaranteed :: bool
  DisableAuthentication :: bool
  BlockCacheSize :: string
  PachdCPURequest :: string
  PachdNonCacheMemRequest :: string
  EtcdCPURequest :: string
  EtcdMemRequest :: string
  IAMRole :: string
  ImagePullSecret :: string
  NoRBAC :: bool
  Namespace :: string

text \<open>
  \<^verbatim>\<open>fillDefaultResourceRequests(opts *AssetOpts, persistentDiskBackend backend)\<close>
  mutates \<^verbatim>\<open>*opts\<close>; the model returns the updated struct. The five conditional
  assignments of each branch are kept in the order of the source.
\<close>

definition fillDefaultResourceRequests :: "AssetOpts \<Rightarrow> backend \<Rightarrow> AssetOpts" where
  "fillDefaultResourceRequests opts persistentDiskBackend =
     (if persistentDiskBackend = localBackend then
        (let opts = (if BlockCacheSize opts = '''' then opts\<lparr>BlockCacheSize := ''256M''\<rparr> else opts);
             opts = (if PachdNonCacheMemRequest opts = ''''
                     then opts\<lparr>PachdNonCacheMemRequest := ''256M''\<rparr> else opts);
             opts = (if PachdCPURequest opts = '''' then opts\<lparr>PachdCPURequest := ''0.25''\<rparr> else opts);
             opts = (if EtcdMemRequest opts = '''' then opts\<lparr>EtcdMemRequest := ''256M''\<rparr> else opts);
             opts = (if EtcdCPURequest opts = '''' then opts\<lparr>EtcdCPURequest := ''0.25''\<rparr> else opts)
         in opts)
      else
        (let opts = (if BlockCacheSize opts = '''' then opts\<lparr>BlockCacheSize := ''1G''\<rparr> else opts);
             opts = (if PachdNonCacheMemRequest opts = ''''
                     then opts\<lparr>PachdNonCacheMemRequest := ''2G''\<rparr> else opts);
             opts = (if PachdCPURequest opts = '''' then opts\<lparr>PachdCPURequest := ''1''\<rparr> else opts);
             opts = (if EtcdMemRequest opts = '''' then opts\<lparr>EtcdMemRequest := ''2G''\<rparr> else opts);
             opts = (if EtcdCPURequest opts = '''' then opts\<lparr>EtcdCPURequest := ''1''\<rparr> else opts)
         in opts))"

text \<open>
  The frame of the function as a predicate on a before/after pair: the two structs agree
  on every field but the five resource requests (the extension slot of the record
  included).
\<close>

definition sameOtherFields :: "AssetOpts \<Rightarrow> AssetOpts \<Rightarrow> bool" where
  "sameOtherFields a b \<longleftrightarrow>
     b = a\<lparr>BlockCacheSize := BlockCacheSize b,
           PachdCPURequest := PachdCPURequest b,
           PachdNonCacheMemRequest := PachdNonCacheMemRequest b,
           EtcdCPURequest := EtcdCPURequest b,
           EtcdMemRequest := EtcdMemRequest b\<rparr>"

definition exampleOpts :: AssetOpts where
  "exampleOpts =
     \<lparr>PachdShards = 16, Version = ''1.7.0'', LogLevel = ''info'', Metrics = True,
      Dynamic = False, EtcdNodes = 1, EtcdVolume = '''', DashOnly = False, NoDash = False,
      DashImage = '''', Registry = '''', EtcdPrefix = '''', NoGuaranteed = False,
      DisableAuthentication = False, BlockCacheSize = '''', PachdCPURequest = ''2'',
      PachdNonCacheMemRequest = '''', EtcdCPURequest = '''', EtcdMemRequest = ''4G'',
      IAMRole = '''', ImagePullSecret = '''', NoRBAC = False, Namespace = ''default''\<rparr>"

section \<open>Vault plugin: the login path (login.go)\<close>

text \<open>
  Go errors as values. \<^verbatim>\<open>logical.ErrInvalidRequest\<close> is a package-level error value of
  Vault; \<^verbatim>\<open>errors.New(msg)\<close> carries its message; an error handed back by a collaborator
  whose code is not part of the plugin (storage, TTL parsing, the pachd client) is passed
  through unchanged and may be any error value. A nil pointer dereference is a panic.
\<close>

datatype error =
    ErrInvalidRequest
  | ErrorsNew string
  | NilPointerPanic

text \<open>The stored plugin configuration read by \<^verbatim>\<open>getConfig\<close>: three strings.\<close>

record config =
  AdminToken :: string
  PachdAddress :: string
  TTL :: string

text \<open>
  \<^verbatim>\<open>time.Duration\<close> is a signed 64-bit count of nanoseconds. The plugin only passes the
  value on.
\<close>

type_synonym duration = "64 word"

text \<open>
  Calls that leave the plugin process, in the order \<^verbatim>\<open>generateUserCredentials\<close> makes
  them: \<^verbatim>\<open>pclient.NewFromAddress(pachdAddress)\<close>, and
  \<^verbatim>\<open>client.AuthAPIClient.GetAuthToken\<close> with the address dialed, the admin token set on
  the client, the subject and the TTL in seconds.
\<close>

datatype remote_call =
    NewFromAddress string
  | GetAuthToken string string string "64 word"

text \<open>
  What the function receives from its collaborators, none of which is defined in
  login.go: the result of \<^verbatim>\<open>getConfig(ctx, req.Storage)\<close> (an error, or a pointer that may
  be nil), \<^verbatim>\<open>b.SanitizeTTLStr\<close>, \<^verbatim>\<open>b.System().MaxLeaseTTL().String()\<close>, the dialing of
  the pachd client, the remote \<^verbatim>\<open>GetAuthToken\<close> and the conversion
  \<^verbatim>\<open>int64(ttl.Seconds())\<close>, which goes through a float64.
\<close>

record login_env =
  getConfig :: "error + config option"
  SanitizeTTLStr :: "string \<Rightarrow> string \<Rightarrow> error + duration"
  MaxLeaseTTL :: string
  dial :: "string \<Rightarrow> error option"
  issueToken :: "string \<Rightarrow> string \<Rightarrow> string \<Rightarrow> 64 word \<Rightarrow> error + string"
  Seconds :: "duration \<Rightarrow> 64 word"

text \<open>The \<^verbatim>\<open>logical.Response\<close> built on success, reduced to the fields the function sets.\<close>

record response =
  InternalData_user_token :: string
  Metadata_user_token :: string
  Metadata_pachd_address :: string
  LeaseOptions_TTL :: duration
  LeaseOptions_Renewable :: bool

text \<open>
  \<^verbatim>\<open>generateUserCredentials\<close>: the result together with the remote calls made, in order.
\<close>

definition generateUserCredentials ::
  "login_env \<Rightarrow> string \<Rightarrow> string \<Rightarrow> string \<Rightarrow> duration \<Rightarrow> (error + string) \<times> remote_call list"
where
  "generateUserCredentials env pachdAddress adminToken username ttl =
     (case dial env pachdAddress of
        Some err \<Rightarrow> (Inl err, [NewFromAddress pachdAddress])
      | None \<Rightarrow>
          (case issueToken env pachdAddress adminToken username (Seconds env ttl) of
             Inl err \<Rightarrow>
               (Inl err, [NewFromAddress pachdAddress,
                          GetAuthToken pachdAddress adminToken username (Seconds env ttl)])
           | Inr token \<Rightarrow>
               (Inr token, [NewFromAddress pachdAddress,
                            GetAuthToken pachdAddress adminToken username (Seconds env ttl)])))"

text \<open>
  \<^verbatim>\<open>pathAuthLogin\<close>: \<open>username\<close> is \<^verbatim>\<open>d.Get("username").(string)\<close>. The checks are in the
  order of the source. The debug logging at entry and in the deferred function has no
  effect on the result and is left out.
\<close>

definition pathAuthLogin ::
  "login_env \<Rightarrow> string \<Rightarrow> (error + response) \<times> remote_call list"
where
  "pathAuthLogin env username =
     (if length username = 0 then (Inl ErrInvalidRequest, [])
      else
        (case getConfig env of
           Inl err \<Rightarrow> (Inl err, [])
         | Inr None \<Rightarrow> (Inl NilPointerPanic, [])
         | Inr (Some config) \<Rightarrow>
             if length (AdminToken config) = 0 then
               (Inl (ErrorsNew ''plugin is missing admin_token''), [])
             else if length (PachdAddress config) = 0 then
               (Inl (ErrorsNew ''plugin is missing pachd_address''), [])
             else if length (TTL config) = 0 then
               (Inl (ErrorsNew ''plugin is missing ttl''), [])
             else
               (case SanitizeTTLStr env (TTL config) (MaxLeaseTTL env) of
                  Inl err \<Rightarrow> (Inl err, [])
                | Inr ttl \<Rightarrow>
                    (case generateUserCredentials env (PachdAddress config)
                            (AdminToken config) username ttl of
                       (Inl err, calls) \<Rightarrow> (Inl err, calls)
                     | (Inr userToken, calls) \<Rightarrow>
                         (Inr \<lparr>InternalData_user_token = userToken,
                               Metadata_user_token = userToken,
                               Metadata_pachd_address = PachdAddress config,
                               LeaseOptions_TTL = ttl,
                               LeaseOptions_Renewable = True\<rparr>, calls)))))"

text \<open>An environment whose pachd signs every token request, for concrete runs.\<close>

definition exampleEnv :: "config \<Rightarrow> login_env" where
  "exampleEnv c =
     \<lparr>getConfig = Inr (Some c),
      SanitizeTTLStr = (\<lambda>ttl maxTTL. Inr 60000000000),
      MaxLeaseTTL = ''768h0m0s'',
      dial = (\<lambda>addr. None),
      issueToken = (\<lambda>addr admin subject secs. Inr (''token-for-'' @ subject)),
      Seconds = (\<lambda>d. d div 1000000000)\<rparr>"

section \<open>The indexed collection and its watchers\<close>

text \<open>
  Modelled from the spec: the collection engine itself (schema, key layout, the
  read-write transaction with \<open>Get\<close>, \<open>Put\<close> and \<open>Delete\<close>, the transaction engine and
  the watch translator). Of the collection package the sources hold only
  collection_test.go; every definition of this section up to the test data follows
  sections 3, 4 and 6 of the specification, sentence by sentence, and each is labelled
  with the sentence it renders. The model is sequential: one transaction at a time, so
  a commit never meets a conflicting writer and the retry loop of the transaction
  engine never runs. Leases and TTLs are not part of it.
\<close>

type_synonym key = string
type_synonym bytes = string

subsection \<open>Schema and index key function\<close>

text \<open>
  Modelled from the spec: the values an indexed field can hold (section 4.1): booleans
  and integers as scalars, and a structured reference given by its component fields.
\<close>

datatype fvalue =
    BoolV bool
  | IntV int
  | RefV "string list"

text \<open>Modelled from the spec: the decimal form of an integer (section 4.1).\<close>

fun decimal :: "nat \<Rightarrow> string" where
  "decimal n =
     (if n < 10 then [char_of (48 + n)]
      else decimal (n div 10) @ [char_of (48 + n mod 10)])"

text \<open>
  Modelled from the spec: a reference renders as its components joined by the
  separator, so that a two-part identifier renders as \<^verbatim>\<open>partA/partB\<close> (section 4.1).
\<close>

fun joinPath :: "string list \<Rightarrow> string" where
  "joinPath [] = []"
| "joinPath [p] = p"
| "joinPath (p # q # ps) = p @ ''/'' @ joinPath (q # ps)"

text \<open>Modelled from the spec: \<open>stringify(value)\<close> of section 4.1.\<close>

fun stringify :: "fvalue \<Rightarrow> string" where
  "stringify (BoolV b) = (if b then ''true'' else ''false'')"
| "stringify (IntV i) = (if i < 0 then ''-'' @ decimal (nat (- i)) else decimal (nat i))"
| "stringify (RefV parts) = joinPath parts"

text \<open>
  Modelled from the spec: an index, \<^verbatim>\<open>{ field: FieldSelector, multi: bool }\<close> (section
  3): the field's name, and the extraction of one value (\<open>multi = false\<close>) or of a
  sequence of values (\<open>multi = true\<close>) from an item. The flag is the constructor of the
  selector, so an index whose flag disagrees with the shape of its field cannot be
  written down.
\<close>

datatype 'a selector =
    Single "'a \<Rightarrow> fvalue"
  | Multi "'a \<Rightarrow> fvalue list"

record 'a index =
  field :: string
  selector :: "'a selector"

text \<open>Modelled from the spec: the \<open>multi\<close> flag of an index (section 3).\<close>

definition multi :: "'a index \<Rightarrow> bool" where
  "multi idx = (case selector idx of Single f \<Rightarrow> False | Multi f \<Rightarrow> True)"

text \<open>
  Modelled from the spec: the schema, \<^verbatim>\<open>{ namespace, indexes, codec }\<close> (section 3). The
  codec encodes an item to bytes and decodes bytes to an item; both can fail (the codec
  error of section 7).
\<close>

record 'a schema =
  namespace :: string
  indexes :: "'a index list"
  encode :: "'a \<Rightarrow> bytes option"
  decode :: "bytes \<Rightarrow> 'a option"

text \<open>
  Modelled from the spec: \<open>indexEntries(index, item)\<close> (section 4.1): one fragment for a
  single-valued index, one fragment per element, deduplicated, for a multi-valued one.
\<close>

definition indexEntries :: "'a index \<Rightarrow> 'a \<Rightarrow> string list" where
  "indexEntries idx item =
     (case selector idx of
        Single f \<Rightarrow> [stringify (f item)]
      | Multi f \<Rightarrow> remdups (map stringify (f item)))"

text \<open>
  Modelled from the spec: the key-space layout of section 6. A primary record is stored
  at \<^verbatim>\<open>namespace + id\<close>; an index identifies the sub-namespace
  \<^verbatim>\<open>namespace + "__index_" + field + "/"\<close>; an index entry is stored at
  \<^verbatim>\<open>namespace + "__index_" + field + "/" + stringify(value) + "/" + id\<close>. \<open>indexDir\<close> is
  the part of an index entry's key before the id: the bounded prefix of one index
  value.
\<close>

definition primaryKey :: "'a schema \<Rightarrow> string \<Rightarrow> key" where
  "primaryKey sc id' = namespace sc @ id'"

definition indexRoot :: "'a schema \<Rightarrow> 'a index \<Rightarrow> key" where
  "indexRoot sc idx = namespace sc @ ''__index_'' @ field idx @ ''/''"

definition indexDir :: "'a schema \<Rightarrow> 'a index \<Rightarrow> string \<Rightarrow> key" where
  "indexDir sc idx fragment = indexRoot sc idx @ fragment @ ''/''"

definition indexKey :: "'a schema \<Rightarrow> 'a index \<Rightarrow> string \<Rightarrow> string \<Rightarrow> key" where
  "indexKey sc idx fragment id' = indexDir sc idx fragment @ id'"

text \<open>
  A fragment lies within the sub-namespace of another when the other's directory is a
  prefix of its own: \<^verbatim>\<open>in/c1\<close> lies within \<^verbatim>\<open>in\<close>, and every fragment within itself.
\<close>

definition fragmentWithin :: "string \<Rightarrow> string \<Rightarrow> bool" where
  "fragmentWithin fr dir \<longleftrightarrow> prefix (dir @ ''/'') (fr @ ''/'')"

text \<open>The codec gives an item back from its own encoding.\<close>

definition roundTrips :: "'a schema \<Rightarrow> 'a \<Rightarrow> bool" where
  "roundTrips sc item =
     (case encode sc item of None \<Rightarrow> False | Some payload \<Rightarrow> decode sc payload = Some item)"

subsection \<open>Coordination store, staged operations, change feed\<close>

text \<open>
  Modelled from the spec: the coordination store as the map from keys to stored bytes;
  a staged mutation of a transaction; a raw notification of the change feed (put with
  payload, or delete).
\<close>

type_synonym store = "key \<rightharpoonup> bytes"

datatype staged_op =
    Write key bytes
  | Del key

datatype raw_event =
    RawPut key bytes
  | RawDelete key

text \<open>
  Modelled from the spec: what the commit of one staged mutation does to the store, and
  the raw notification it gives on the change feed.
\<close>

fun applyOp :: "staged_op \<Rightarrow> store \<Rightarrow> store" where
  "applyOp (Write k v) m = m(k \<mapsto> v)"
| "applyOp (Del k) m = m(k := None)"

fun opEvent :: "staged_op \<Rightarrow> raw_event" where
  "opEvent (Write k v) = RawPut k v"
| "opEvent (Del k) = RawDelete k"

subsection \<open>Read-write transaction\<close>

text \<open>
  Modelled from the spec: the error kinds of section 7 that a sequential transaction
  can meet: NotFound and the codec error.
\<close>

datatype coll_error =
    NotFound
  | CodecError

text \<open>
  Modelled from the spec: a read-write transaction (sections 4.3, 4.4): the snapshot
  its reads go to, and the mutations staged so far, oldest first.
\<close>

record txn =
  snapshot :: store
  staged :: "staged_op list"

text \<open>Modelled from the spec: staging mutations for the commit (section 4.3).\<close>

definition stage :: "txn \<Rightarrow> staged_op list \<Rightarrow> txn" where
  "stage t ops = t\<lparr>staged := staged t @ ops\<rparr>"

text \<open>
  Modelled from the spec: \<open>Get(id)\<close> of section 4.3, a read against the transaction's
  snapshot; NotFound if the id is absent.
\<close>

definition Get :: "'a schema \<Rightarrow> string \<Rightarrow> txn \<Rightarrow> coll_error + 'a" where
  "Get sc id' t =
     (case snapshot t (primaryKey sc id') of
        None \<Rightarrow> Inl NotFound
      | Some stored \<Rightarrow>
          (case decode sc stored of None \<Rightarrow> Inl CodecError | Some item \<Rightarrow> Inr item))"

text \<open>
  Modelled from the spec: the mutations \<open>Put\<close> stages in step 3 of section 4.3 for one
  index: a delete for every previous fragment absent from the new set, and a write of
  the new payload for every new fragment absent from the previous set.
\<close>

definition indexDelta ::
  "'a schema \<Rightarrow> string \<Rightarrow> bytes \<Rightarrow> string list \<Rightarrow> string list \<Rightarrow> 'a index \<Rightarrow> staged_op list"
where
  "indexDelta sc id' payload prevFrags newFrags idx =
     map (\<lambda>fr. Del (indexKey sc idx fr id')) (filter (\<lambda>fr. fr \<notin> set newFrags) prevFrags) @
     map (\<lambda>fr. Write (indexKey sc idx fr id') payload)
       (filter (\<lambda>fr. fr \<notin> set prevFrags) newFrags)"

text \<open>
  Modelled from the spec: \<open>Put(id, item)\<close> of section 4.3. Step 1 reads the current
  record, if any, and decodes it to the previous item. Step 2: if a previous item
  exists and its stored bytes are identical to the new item's encoding, nothing is
  staged. Step 3: otherwise the primary write is staged, then the delta of every index
  in the order of the schema. An item that cannot be encoded, or a stored record that
  cannot be decoded, fails the operation.
\<close>

definition Put :: "'a schema \<Rightarrow> string \<Rightarrow> 'a \<Rightarrow> txn \<Rightarrow> coll_error + txn" where
  "Put sc id' item t =
     (case snapshot t (primaryKey sc id') of
        None \<Rightarrow>
          (case encode sc item of
             None \<Rightarrow> Inl CodecError
           | Some payload \<Rightarrow>
               Inr (stage t (Write (primaryKey sc id') payload #
                      concat (map (\<lambda>idx. indexDelta sc id' payload []
                                            (indexEntries idx item) idx) (indexes sc)))))
      | Some stored \<Rightarrow>
          (case decode sc stored of
             None \<Rightarrow> Inl CodecError
           | Some prev \<Rightarrow>
               (case encode sc item of
                  None \<Rightarrow> Inl CodecError
                | Some payload \<Rightarrow>
                    if stored = payload then Inr t
                    else
                      Inr (stage t (Write (primaryKey sc id') payload #
                             concat (map (\<lambda>idx. indexDelta sc id' payload
                                                   (indexEntries idx prev)
                                                   (indexEntries idx item) idx)
                                       (indexes sc)))))))"

text \<open>
  Modelled from the spec: \<open>Delete(id)\<close> of section 4.3: reads the current item, then
  stages the deletion of the primary key and of every one of its index fragments.
\<close>

definition Delete :: "'a schema \<Rightarrow> string \<Rightarrow> txn \<Rightarrow> coll_error + txn" where
  "Delete sc id' t =
     (case Get sc id' t of
        Inl err \<Rightarrow> Inl err
      | Inr item \<Rightarrow>
          Inr (stage t (Del (primaryKey sc id') #
                 concat (map (\<lambda>idx. map (\<lambda>fr. Del (indexKey sc idx fr id'))
                                       (indexEntries idx item)) (indexes sc)))))"

subsection \<open>Transaction engine\<close>

text \<open>
  Modelled from the spec: \<open>RunTransaction(body)\<close> of section 4.4, with no concurrent
  writer: the body runs against a snapshot of the store; if it fails, the store is
  unchanged and the error propagates; otherwise the staged mutations are committed in
  order, and each gives one raw notification of the change feed. The result is the
  body's outcome, the store after it and the notifications of this commit.
\<close>

definition RunTransaction ::
  "(txn \<Rightarrow> coll_error + txn) \<Rightarrow> store \<Rightarrow> (coll_error + unit) \<times> store \<times> raw_event list"
where
  "RunTransaction body db =
     (case body \<lparr>snapshot = db, staged = []\<rparr> of
        Inl err \<Rightarrow> (Inl err, db, [])
      | Inr t \<Rightarrow> (Inr (), fold applyOp (staged t) db, map opEvent (staged t)))"

subsection \<open>Watch translator\<close>

text \<open>
  Modelled from the spec: a subscription (section 4.5) is to exactly one key or to a
  bounded prefix, and owns the value last delivered for each key (section 9).
\<close>

datatype scope =
    OneKey key
  | Prefix key

record watcher =
  scope :: scope
  lastDelivered :: "key \<rightharpoonup> bytes"

text \<open>
  Modelled from the spec: a typed event (section 4.5): Put with the id and the decoded
  item, Delete with the id, or an error event for a payload that does not decode.
\<close>

datatype 'a event =
    EventPut string 'a
  | EventDelete string
  | EventError key

text \<open>Modelled from the spec: the keys whose raw notifications a subscription receives.\<close>

fun inScope :: "scope \<Rightarrow> key \<Rightarrow> bool" where
  "inScope (OneKey k') k = (k = k')"
| "inScope (Prefix p) k = prefix p k"

text \<open>Modelled from the spec: the id is parsed from the trailing key segment.\<close>

definition trailingSegment :: "key \<Rightarrow> string" where
  "trailingSegment k = rev (takeWhile (\<lambda>c. c \<noteq> CHR ''/'') (rev k))"

text \<open>
  Modelled from the spec: \<open>Watch(id)\<close> subscribes to one primary key,
  \<open>WatchByIndex(index, value)\<close> to the sub-namespace of one index value.
\<close>

definition Watch :: "'a schema \<Rightarrow> string \<Rightarrow> watcher" where
  "Watch sc id' = \<lparr>scope = OneKey (primaryKey sc id'), lastDelivered = Map.empty\<rparr>"

definition WatchByIndex :: "'a schema \<Rightarrow> 'a index \<Rightarrow> fvalue \<Rightarrow> watcher" where
  "WatchByIndex sc idx v =
     \<lparr>scope = Prefix (indexDir sc idx (stringify v)), lastDelivered = Map.empty\<rparr>"

text \<open>
  Modelled from the spec: the translation of one raw notification (section 4.5). A raw
  put whose value differs from the value last delivered for its key becomes a Put event
  with the id and the decoded item (an error event if the payload does not decode); a
  raw put with an unchanged value gives no event; a raw delete becomes a Delete event
  with the id. Notifications outside the subscription's scope are not received.
\<close>

fun translate :: "'a schema \<Rightarrow> watcher \<Rightarrow> raw_event \<Rightarrow> watcher \<times> 'a event list" where
  "translate sc w (RawPut k v) =
     (if \<not> inScope (scope w) k then (w, [])
      else if lastDelivered w k = Some v then (w, [])
      else (w\<lparr>lastDelivered := (lastDelivered w)(k \<mapsto> v)\<rparr>,
            [case decode sc v of
               None \<Rightarrow> EventError k
             | Some item \<Rightarrow> EventPut (trailingSegment k) item]))"
| "translate sc w (RawDelete k) =
     (if \<not> inScope (scope w) k then (w, [])
      else (w\<lparr>lastDelivered := (lastDelivered w)(k := None)\<rparr>,
            [EventDelete (trailingSegment k)]))"

text \<open>
  Modelled from the spec: the events of a sequence of raw notifications, delivered in
  order on the watcher's one channel (section 4.5).
\<close>

fun deliver :: "'a schema \<Rightarrow> watcher \<Rightarrow> raw_event list \<Rightarrow> watcher \<times> 'a event list" where
  "deliver sc w [] = (w, [])"
| "deliver sc w (r # rs) =
     (case translate sc w r of
        (w', evs) \<Rightarrow> (case deliver sc w' rs of (w'', evs') \<Rightarrow> (w'', evs @ evs')))"

text \<open>
  A watcher following a sequence of transactions, run one after the other on the
  store: the events delivered for each transaction's commit, and the store at the end.
\<close>

fun follow ::
  "'a schema \<Rightarrow> watcher \<Rightarrow> store \<Rightarrow> (txn \<Rightarrow> coll_error + txn) list \<Rightarrow> 'a event list list \<times> store"
where
  "follow sc w db [] = ([], db)"
| "follow sc w db (body # bodies) =
     (case RunTransaction body db of
        (res, db', raws) \<Rightarrow>
          (case deliver sc w raws of
             (w', evs) \<Rightarrow>
               (case follow sc w' db' bodies of (batches, db'') \<Rightarrow> (evs # batches, db''))))"

subsection \<open>Test data of collection_test.go\<close>

text \<open>
  \<^verbatim>\<open>pps.JobInfo\<close> reduced to the two fields the tests set, \<^verbatim>\<open>Job.ID\<close> and
  \<^verbatim>\<open>Pipeline.Name\<close>; \<^verbatim>\<open>pipelineIndex\<close> with \<^verbatim>\<open>Field: "Pipeline", Multi: false\<close>; the jobs of
  \<^verbatim>\<open>TestIndexWatch\<close>. The protobuf codec is not in the sources: a newline-separated
  encoding of the two fields stands in for it.
\<close>

record JobInfo =
  Job :: string
  Pipeline :: string

definition pipelineIndex :: "JobInfo index" where
  "pipelineIndex = \<lparr>field = ''Pipeline'', selector = Single (\<lambda>j. RefV [Pipeline j])\<rparr>"

definition encodeJobInfo :: "JobInfo \<Rightarrow> bytes option" where
  "encodeJobInfo j =
     (if CHR 0x0A \<in> set (Job j) then None else Some (Job j @ [CHR 0x0A] @ Pipeline j))"

definition decodeJobInfo :: "bytes \<Rightarrow> JobInfo option" where
  "decodeJobInfo bs =
     (if CHR 0x0A \<in> set bs
      then Some \<lparr>Job = takeWhile (\<lambda>c. c \<noteq> CHR 0x0A) bs,
                 Pipeline = tl (dropWhile (\<lambda>c. c \<noteq> CHR 0x0A) bs)\<rparr>
      else None)"

definition jobInfos :: "JobInfo schema" where
  "jobInfos = \<lparr>namespace = ''6fa459eaee8a3ca4894edb77e160355e'',
               indexes = [pipelineIndex],
               encode = encodeJobInfo, decode = decodeJobInfo\<rparr>"

definition j1 :: JobInfo where
  "j1 = \<lparr>Job = ''j1'', Pipeline = ''p1''\<rparr>"

definition j2 :: JobInfo where
  "j2 = \<lparr>Job = ''j2'', Pipeline = ''p1''\<rparr>"

definition j1Prime :: JobInfo where
  "j1Prime = \<lparr>Job = ''j1'', Pipeline = ''p3''\<rparr>"

section \<open>Theorems\<close>

subsection \<open>Default resource requests\<close>

lemma update_if_distrib:
  "(if c then opts\<lparr>BlockCacheSize := v\<rparr> else opts) =
     opts\<lparr>BlockCacheSize := (if c then v else BlockCacheSize opts)\<rparr>"
  "(if c then opts\<lparr>PachdNonCacheMemRequest := v\<rparr> else opts) =
     opts\<lparr>PachdNonCacheMemRequest := (if c then v else PachdNonCacheMemRequest opts)\<rparr>"
  "(if c then opts\<lparr>PachdCPURequest := v\<rparr> else opts) =
     opts\<lparr>PachdCPURequest := (if c then v else PachdCPURequest opts)\<rparr>"
  "(if c then opts\<lparr>EtcdMemRequest := v\<rparr> else opts) =
     opts\<lparr>EtcdMemRequest := (if c then v else EtcdMemRequest opts)\<rparr>"
  "(if c then opts\<lparr>EtcdCPURequest := v\<rparr> else opts) =
     opts\<lparr>EtcdCPURequest := (if c then v else EtcdCPURequest opts)\<rparr>"
  by simp_all

lemma fill_closed_form:
  "fillDefaultResourceRequests opts b =
     opts\<lparr>BlockCacheSize :=
            (if BlockCacheSize opts = '''' then (if b = localBackend then ''256M'' else ''1G'')
             else BlockCacheSize opts),
          PachdNonCacheMemRequest :=
            (if PachdNonCacheMemRequest opts = ''''
             then (if b = localBackend then ''256M'' else ''2G'')
             else PachdNonCacheMemRequest opts),
          PachdCPURequest :=
            (if PachdCPURequest opts = '''' then (if b = localBackend then ''0.25'' else ''1'')
             else PachdCPURequest opts),
          EtcdMemRequest :=
            (if EtcdMemRequest opts = '''' then (if b = localBackend then ''256M'' else ''2G'')
             else EtcdMemRequest opts),
          EtcdCPURequest :=
            (if EtcdCPURequest opts = '''' then (if b = localBackend then ''0.25'' else ''1'')
             else EtcdCPURequest opts)\<rparr>"
  unfolding fillDefaultResourceRequests_def Let_def update_if_distrib
  by (simp cong: if_cong)

lemma fill_frame: "sameOtherFields opts (fillDefaultResourceRequests opts b)"
  unfolding sameOtherFields_def fill_closed_form
  by (simp split del: if_split cong: if_cong)

lemma fill_locality:
  "(b = localBackend \<longleftrightarrow> b' = localBackend) \<Longrightarrow>
     fillDefaultResourceRequests opts b = fillDefaultResourceRequests opts b'"
  unfolding fill_closed_form by (simp split del: if_split cong: if_cong)

lemma sameOtherFields_Namespace: "sameOtherFields a b \<Longrightarrow> Namespace b = Namespace a"
proof -
  assume "sameOtherFields a b"
  then have "Namespace b = Namespace (a\<lparr>BlockCacheSize := BlockCacheSize b,
           PachdCPURequest := PachdCPURequest b,
           PachdNonCacheMemRequest := PachdNonCacheMemRequest b,
           EtcdCPURequest := EtcdCPURequest b,
           EtcdMemRequest := EtcdMemRequest b\<rparr>)"
    unfolding sameOtherFields_def by (rule arg_cong)
  then show ?thesis by simp
qed

text \<open>
  C10. For every options value and backend, \<open>fillDefaultResourceRequests\<close> gives each of
  the five fields BlockCacheSize, PachdNonCacheMemRequest, PachdCPURequest,
  EtcdMemRequest and EtcdCPURequest its default exactly when the field is the empty
  string and keeps it otherwise; every other field of the options is unchanged; and two
  backends that agree on being the local backend give the same result.
\<close>

theorem fillDefaultResourceRequests_frame:
  "BlockCacheSize (fillDefaultResourceRequests opts b) =
     (if BlockCacheSize opts = '''' then (if b = localBackend then ''256M'' else ''1G'')
      else BlockCacheSize opts) \<and>
   PachdNonCacheMemRequest (fillDefaultResourceRequests opts b) =
     (if PachdNonCacheMemRequest opts = '''' then (if b = localBackend then ''256M'' else ''2G'')
      else PachdNonCacheMemRequest opts) \<and>
   PachdCPURequest (fillDefaultResourceRequests opts b) =
     (if PachdCPURequest opts = '''' then (if b = localBackend then ''0.25'' else ''1'')
      else PachdCPURequest opts) \<and>
   EtcdMemRequest (fillDefaultResourceRequests opts b) =
     (if EtcdMemRequest opts = '''' then (if b = localBackend then ''256M'' else ''2G'')
      else EtcdMemRequest opts) \<and>
   EtcdCPURequest (fillDefaultResourceRequests opts b) =
     (if EtcdCPURequest opts = '''' then (if b = localBackend then ''0.25'' else ''1'')
      else EtcdCPURequest opts) \<and>
   sameOtherFields opts (fillDefaultResourceRequests opts b) \<and>
   (\<forall>b'. (b = localBackend \<longleftrightarrow> b' = localBackend) \<longrightarrow>
      fillDefaultResourceRequests opts b' = fillDefaultResourceRequests opts b)"
proof (intro conjI allI impI)
  show "sameOtherFields opts (fillDefaultResourceRequests opts b)"
    by (rule fill_frame)
next
  fix b' assume "(b = localBackend) = (b' = localBackend)"
  then show "fillDefaultResourceRequests opts b' = fillDefaultResourceRequests opts b"
    using fill_locality [of b' b opts] by blast
qed (simp_all add: fill_closed_form split del: if_split cong: if_cong)

theorem fillDefaultResourceRequests_frame_witness:
  "BlockCacheSize (fillDefaultResourceRequests exampleOpts amazonBackend) = ''1G'' \<and>
   PachdCPURequest (fillDefaultResourceRequests exampleOpts amazonBackend) = ''2'' \<and>
   EtcdMemRequest (fillDefaultResourceRequests exampleOpts amazonBackend) = ''4G'' \<and>
   Namespace (fillDefaultResourceRequests exampleOpts amazonBackend) = ''default'' \<and>
   fillDefaultResourceRequests exampleOpts minioBackend =
     fillDefaultResourceRequests exampleOpts amazonBackend"
proof -
  note t = fillDefaultResourceRequests_frame [of exampleOpts amazonBackend]
  have ne: "amazonBackend \<noteq> localBackend" "minioBackend \<noteq> localBackend"
    by (simp_all add: amazonBackend_def minioBackend_def localBackend_def)
  have f: "BlockCacheSize exampleOpts = []" "PachdCPURequest exampleOpts = ''2''"
    "EtcdMemRequest exampleOpts = ''4G''" "Namespace exampleOpts = ''default''"
    by (simp_all add: exampleOpts_def)
  have 1: "BlockCacheSize (fillDefaultResourceRequests exampleOpts amazonBackend) = ''1G''"
    using t [THEN conjunct1] ne(1) f(1) by simp
  have 2: "PachdCPURequest (fillDefaultResourceRequests exampleOpts amazonBackend) = ''2''"
    using t [THEN conjunct2, THEN conjunct2, THEN conjunct1] f(2) by simp
  have 3: "EtcdMemRequest (fillDefaultResourceRequests exampleOpts amazonBackend) = ''4G''"
    using t [THEN conjunct2, THEN conjunct2, THEN conjunct2, THEN conjunct1] f(3) by simp
  have "sameOtherFields exampleOpts (fillDefaultResourceRequests exampleOpts amazonBackend)"
    by (rule t [THEN conjunct2, THEN conjunct2, THEN conjunct2, THEN conjunct2,
          THEN conjunct2, THEN conjunct1])
  then have "Namespace (fillDefaultResourceRequests exampleOpts amazonBackend) =
      Namespace exampleOpts"
    by (rule sameOtherFields_Namespace)
  then have 4: "Namespace (fillDefaultResourceRequests exampleOpts amazonBackend) = ''default''"
    using f(4) by simp
  have "\<forall>b'. (amazonBackend = localBackend) = (b' = localBackend) \<longrightarrow>
      fillDefaultResourceRequests exampleOpts b' =
      fillDefaultResourceRequests exampleOpts amazonBackend"
    by (rule t [THEN conjunct2, THEN conjunct2, THEN conjunct2, THEN conjunct2,
          THEN conjunct2, THEN conjunct2])
  then have 5: "fillDefaultResourceRequests exampleOpts minioBackend =
      fillDefaultResourceRequests exampleOpts amazonBackend"
    using ne by blast
  from 1 2 3 4 5 show ?thesis by blast
qed

subsection \<open>The login path\<close>

lemma login_empty_username:
  "pathAuthLogin env '''' = (Inl ErrInvalidRequest, [])"
  by (simp add: pathAuthLogin_def)

lemma login_missing_admin_token:
  assumes "username \<noteq> ''''" and "getConfig env = Inr (Some c)" and "AdminToken c = ''''"
  shows "pathAuthLogin env username = (Inl (ErrorsNew ''plugin is missing admin_token''), [])"
  using assms by (simp add: pathAuthLogin_def)

lemma login_missing_pachd_address:
  assumes "username \<noteq> ''''" and "getConfig env = Inr (Some c)" and "AdminToken c \<noteq> ''''"
    and "PachdAddress c = ''''"
  shows "pathAuthLogin env username = (Inl (ErrorsNew ''plugin is missing pachd_address''), [])"
  using assms by (simp add: pathAuthLogin_def)

lemma login_missing_ttl:
  assumes "username \<noteq> ''''" and "getConfig env = Inr (Some c)" and "AdminToken c \<noteq> ''''"
    and "PachdAddress c \<noteq> ''''" and "TTL c = ''''"
  shows "pathAuthLogin env username = (Inl (ErrorsNew ''plugin is missing ttl''), [])"
  using assms by (simp add: pathAuthLogin_def)

lemma login_calls_only_after_checks:
  assumes "snd (pathAuthLogin env username) \<noteq> []"
  shows "username \<noteq> '''' \<and>
     (\<exists>c. getConfig env = Inr (Some c) \<and> AdminToken c \<noteq> '''' \<and> PachdAddress c \<noteq> '''' \<and>
          TTL c \<noteq> '''')"
  using assms
  by (auto simp: pathAuthLogin_def split: if_splits sum.splits option.splits)

text \<open>
  C9. A login request with an empty username fails with ErrInvalidRequest. A request
  with a username, whose configuration loads with an empty AdminToken, PachdAddress or
  TTL, fails with the error of the first empty field in that order; the three errors
  differ from ErrInvalidRequest and from each other. In each of these cases no remote
  call has been made when the function returns; more generally, a run that made a
  remote call had a username and a loaded configuration with all three fields set.
\<close>

theorem pathAuthLogin_rejects_before_remote_call:
  "pathAuthLogin env '''' = (Inl ErrInvalidRequest, []) \<and>
   (username \<noteq> '''' \<and> getConfig env = Inr (Some c) \<longrightarrow>
      (AdminToken c = '''' \<longrightarrow>
         pathAuthLogin env username =
           (Inl (ErrorsNew ''plugin is missing admin_token''), [])) \<and>
      (AdminToken c \<noteq> '''' \<and> PachdAddress c = '''' \<longrightarrow>
         pathAuthLogin env username =
           (Inl (ErrorsNew ''plugin is missing pachd_address''), [])) \<and>
      (AdminToken c \<noteq> '''' \<and> PachdAddress c \<noteq> '''' \<and> TTL c = '''' \<longrightarrow>
         pathAuthLogin env username = (Inl (ErrorsNew ''plugin is missing ttl''), []))) \<and>
   (snd (pathAuthLogin env username) \<noteq> [] \<longrightarrow>
      username \<noteq> '''' \<and>
      (\<exists>c. getConfig env = Inr (Some c) \<and> AdminToken c \<noteq> '''' \<and>
           PachdAddress c \<noteq> '''' \<and> TTL c \<noteq> '''')) \<and>
   distinct [ErrInvalidRequest, ErrorsNew ''plugin is missing admin_token'',
             ErrorsNew ''plugin is missing pachd_address'', ErrorsNew ''plugin is missing ttl'']"
proof -
  have 1: "pathAuthLogin env '''' = (Inl ErrInvalidRequest, [])"
    by (rule login_empty_username)
  have 2: "username \<noteq> '''' \<and> getConfig env = Inr (Some c) \<longrightarrow>
      (AdminToken c = '''' \<longrightarrow>
         pathAuthLogin env username =
           (Inl (ErrorsNew ''plugin is missing admin_token''), [])) \<and>
      (AdminToken c \<noteq> '''' \<and> PachdAddress c = '''' \<longrightarrow>
         pathAuthLogin env username =
           (Inl (ErrorsNew ''plugin is missing pachd_address''), [])) \<and>
      (AdminToken c \<noteq> '''' \<and> PachdAddress c \<noteq> '''' \<and> TTL c = '''' \<longrightarrow>
         pathAuthLogin env username = (Inl (ErrorsNew ''plugin is missing ttl''), []))"
    using login_missing_admin_token [of username env c]
      login_missing_pachd_address [of username env c] login_missing_ttl [of username env c]
    by blast
  have 3: "snd (pathAuthLogin env username) \<noteq> [] \<longrightarrow>
      username \<noteq> '''' \<and>
      (\<exists>c. getConfig env = Inr (Some c) \<and> AdminToken c \<noteq> '''' \<and>
           PachdAddress c \<noteq> '''' \<and> TTL c \<noteq> '''')"
    using login_calls_only_after_checks [of env username] by blast
  have 4: "distinct [ErrInvalidRequest, ErrorsNew ''plugin is missing admin_token'',
             ErrorsNew ''plugin is missing pachd_address'', ErrorsNew ''plugin is missing ttl'']"
    by simp
  from 1 2 3 4 show ?thesis
    by (intro conjI)
qed

theorem pathAuthLogin_rejects_before_remote_call_witness:
  "pathAuthLogin
     (exampleEnv \<lparr>AdminToken = ''secret'', PachdAddress = '''', TTL = ''60s''\<rparr>) ''alice'' =
     (Inl (ErrorsNew ''plugin is missing pachd_address''), []) \<and>
   pathAuthLogin
     (exampleEnv \<lparr>AdminToken = ''secret'', PachdAddress = ''pachd:650'', TTL = ''60s''\<rparr>) ''alice'' =
     (Inr \<lparr>InternalData_user_token = ''token-for-alice'',
           Metadata_user_token = ''token-for-alice'',
           Metadata_pachd_address = ''pachd:650'',
           LeaseOptions_TTL = 60000000000,
           LeaseOptions_Renewable = True\<rparr>,
      [NewFromAddress ''pachd:650'', GetAuthToken ''pachd:650'' ''secret'' ''alice'' 60])"
proof -
  let ?c = "\<lparr>AdminToken = ''secret'', PachdAddress = '''', TTL = ''60s''\<rparr>"
  have h: "''alice'' \<noteq> '''' \<and> getConfig (exampleEnv ?c) = Inr (Some ?c)"
    by (simp add: exampleEnv_def)
  have g: "AdminToken ?c \<noteq> '''' \<and> PachdAddress ?c = ''''"
    by simp
  have 1: "pathAuthLogin (exampleEnv ?c) ''alice'' =
      (Inl (ErrorsNew ''plugin is missing pachd_address''), [])"
    using pathAuthLogin_rejects_before_remote_call [of "exampleEnv ?c" "''alice''" ?c] h g
    by blast
  have 2: "pathAuthLogin
     (exampleEnv \<lparr>AdminToken = ''secret'', PachdAddress = ''pachd:650'', TTL = ''60s''\<rparr>) ''alice'' =
     (Inr \<lparr>InternalData_user_token = ''token-for-alice'',
           Metadata_user_token = ''token-for-alice'',
           Metadata_pachd_address = ''pachd:650'',
           LeaseOptions_TTL = 60000000000,
           LeaseOptions_Renewable = True\<rparr>,
      [NewFromAddress ''pachd:650'', GetAuthToken ''pachd:650'' ''secret'' ''alice'' 60])"
    by (simp add: pathAuthLogin_def exampleEnv_def generateUserCredentials_def)
  from 1 2 show ?thesis by blast
qed

subsection \<open>Key layout of the collection\<close>

text \<open>
  Keys of ids that hold no separator: a primary key is no index key and lies in no
  index directory, and the trailing segment of an index key is the id.
\<close>

lemma primaryKey_eq_iff [simp]: "primaryKey sc a = primaryKey sc b \<longleftrightarrow> a = b"
  by (simp add: primaryKey_def)

lemma indexKey_eq_iff [simp]: "indexKey sc idx fr a = indexKey sc idx fr b \<longleftrightarrow> a = b"
  by (simp add: indexKey_def)

lemma primaryKey_ne_indexKey:
  assumes "CHR ''/'' \<notin> set a"
  shows "primaryKey sc a \<noteq> indexKey sc idx fr b"
proof
  assume "primaryKey sc a = indexKey sc idx fr b"
  then have "a = ''__index_'' @ field idx @ ''/'' @ fr @ ''/'' @ b"
    by (simp add: primaryKey_def indexKey_def indexDir_def indexRoot_def)
  then have "CHR ''/'' \<in> set a"
    by simp
  with assms show False by simp
qed

lemma indexDir_not_prefix_primaryKey:
  assumes "CHR ''/'' \<notin> set a"
  shows "\<not> prefix (indexDir sc idx fr) (primaryKey sc a)"
proof
  assume "prefix (indexDir sc idx fr) (primaryKey sc a)"
  then have "prefix (''__index_'' @ field idx @ ''/'' @ fr @ ''/'') a"
    by (simp add: primaryKey_def indexDir_def indexRoot_def)
  then have "set (''__index_'' @ field idx @ ''/'' @ fr @ ''/'') \<subseteq> set a"
    by (rule set_mono_prefix)
  with assms show False by simp
qed

lemma indexDir_prefix_indexKey: "prefix (indexDir sc idx fr) (indexKey sc idx fr a)"
  by (simp add: indexKey_def)

lemma indexDir_prefix_indexKey_iff:
  "prefix (indexDir sc idx fr) (indexKey sc idx fr' a) \<longleftrightarrow>
     prefix (fr @ ''/'') (fr' @ ''/'' @ a)"
  by (simp add: indexKey_def indexDir_def)

lemma prefix_slash_id:
  assumes "CHR ''/'' \<notin> set a"
  shows "prefix (fr @ ''/'') (fr' @ ''/'' @ a) \<longleftrightarrow> prefix (fr @ ''/'') (fr' @ ''/'')"
proof
  assume "prefix (fr @ ''/'') (fr' @ ''/'')"
  then have "prefix (fr @ ''/'') ((fr' @ ''/'') @ a)"
    by (rule prefix_prefix)
  then show "prefix (fr @ ''/'') (fr' @ ''/'' @ a)"
    by simp
next
  assume "prefix (fr @ ''/'') (fr' @ ''/'' @ a)"
  then have "prefix (fr @ ''/'') ((fr' @ ''/'') @ a)"
    by simp
  then consider "prefix (fr @ ''/'') (fr' @ ''/'')"
    | us where "fr @ ''/'' = (fr' @ ''/'') @ us" and "prefix us a"
    unfolding prefix_append by blast
  then show "prefix (fr @ ''/'') (fr' @ ''/'')"
  proof cases
    case 1
    then show ?thesis .
  next
    case 2
    show ?thesis
    proof (cases "us = []")
      case True
      with 2 show ?thesis by simp
    next
      case False
      then have "last ((fr' @ ''/'') @ us) = last us"
        by simp
      with 2 have "last us = CHR ''/''"
        by (metis last_snoc)
      with False have "CHR ''/'' \<in> set us"
        using last_in_set by metis
      moreover have "set us \<subseteq> set a"
        using 2 by (simp add: set_mono_prefix)
      ultimately show ?thesis
        using assms by blast
    qed
  qed
qed

lemma trailingSegment_indexKey:
  assumes "CHR ''/'' \<notin> set a"
  shows "trailingSegment (indexKey sc idx fr a) = a"
proof -
  have "rev (indexKey sc idx fr a) = rev a @ CHR ''/'' # rev (indexRoot sc idx @ fr)"
    by (simp add: indexKey_def indexDir_def)
  moreover have "takeWhile (\<lambda>c. c \<noteq> CHR ''/'') (rev a @ CHR ''/'' # rev (indexRoot sc idx @ fr)) =
      takeWhile (\<lambda>c. c \<noteq> CHR ''/'') (rev a)"
    by (rule takeWhile_tail) simp
  moreover have "takeWhile (\<lambda>c. c \<noteq> CHR ''/'') (rev a) = rev a"
    using assms by (auto simp: takeWhile_eq_all_conv)
  ultimately show ?thesis
    by (simp add: trailingSegment_def)
qed

subsection \<open>Single steps of the read-write transaction\<close>

lemma Put_fresh:
  assumes "db (primaryKey sc a) = None" and "encode sc item = Some payload"
    and "indexes sc = [idx]" and "selector idx = Single f"
  shows "RunTransaction (Put sc a item) db =
     (Inr (),
      db(primaryKey sc a \<mapsto> payload, indexKey sc idx (stringify (f item)) a \<mapsto> payload),
      [RawPut (primaryKey sc a) payload,
       RawPut (indexKey sc idx (stringify (f item)) a) payload])"
  using assms
  by (simp add: RunTransaction_def Put_def stage_def indexDelta_def indexEntries_def)

lemma Put_identical:
  assumes "snapshot t (primaryKey sc a) = Some stored" and "decode sc stored = Some prev"
    and "encode sc item = Some stored"
  shows "Put sc a item t = Inr t"
  using assms by (simp add: Put_def)

lemma Put_identical_run:
  assumes "db (primaryKey sc a) = Some stored" and "decode sc stored = Some prev"
    and "encode sc item = Some stored"
  shows "RunTransaction (Put sc a item) db = (Inr (), db, [])"
  using assms by (simp add: RunTransaction_def Put_identical)

lemma Put_moved:
  assumes "db (primaryKey sc a) = Some stored" and "decode sc stored = Some prev"
    and "encode sc item = Some payload" and "stored \<noteq> payload"
    and "indexes sc = [idx]" and "selector idx = Single f"
    and "stringify (f prev) \<noteq> stringify (f item)"
  shows "RunTransaction (Put sc a item) db =
     (Inr (),
      (db(primaryKey sc a \<mapsto> payload, indexKey sc idx (stringify (f prev)) a := None))
        (indexKey sc idx (stringify (f item)) a \<mapsto> payload),
      [RawPut (primaryKey sc a) payload,
       RawDelete (indexKey sc idx (stringify (f prev)) a),
       RawPut (indexKey sc idx (stringify (f item)) a) payload])"
  using assms
  by (simp add: RunTransaction_def Put_def stage_def indexDelta_def indexEntries_def)

lemma Delete_stored:
  assumes "db (primaryKey sc a) = Some stored" and "decode sc stored = Some item"
    and "indexes sc = [idx]" and "selector idx = Single f"
  shows "RunTransaction (Delete sc a) db =
     (Inr (),
      db(primaryKey sc a := None, indexKey sc idx (stringify (f item)) a := None),
      [RawDelete (primaryKey sc a), RawDelete (indexKey sc idx (stringify (f item)) a)])"
  using assms
  by (simp add: RunTransaction_def Delete_def Get_def stage_def indexEntries_def)

subsection \<open>A re-Put of the stored bytes\<close>

text \<open>
  C3. Take a stored record: the store holds bytes at the id's primary key, and they
  decode. A \<open>Put\<close> of an item whose encoding is those bytes stages nothing, whatever the
  transaction had staged before: no primary write, no index write, no index delete. Run
  as a transaction, it leaves the store as it was and commits no notification, so that
  every watcher, whatever its scope and whatever it had delivered before, receives no
  event and keeps its state; in particular the watcher of any primary key and the
  watcher of any index value.
\<close>

theorem Put_identical_is_noop:
  assumes "db (primaryKey sc a) = Some stored" and "decode sc stored = Some prev"
    and "encode sc item = Some stored"
  shows "Put sc a item \<lparr>snapshot = db, staged = ops\<rparr> = Inr \<lparr>snapshot = db, staged = ops\<rparr> \<and>
     RunTransaction (Put sc a item) db = (Inr (), db, []) \<and>
     (\<forall>w. deliver sc w (snd (snd (RunTransaction (Put sc a item) db))) = (w, [])) \<and>
     snd (deliver sc (Watch sc b) (snd (snd (RunTransaction (Put sc a item) db)))) = [] \<and>
     snd (deliver sc (WatchByIndex sc idx v)
            (snd (snd (RunTransaction (Put sc a item) db)))) = []"
proof -
  have put: "Put sc a item t = Inr t" if "snapshot t = db" for t
    using assms that by (simp add: Put_identical)
  have run: "RunTransaction (Put sc a item) db = (Inr (), db, [])"
    using assms by (rule Put_identical_run)
  show ?thesis
    by (simp add: put run)
qed

theorem Put_identical_is_noop_witness:
  "RunTransaction (Put jobInfos ''j1'' j1)
     [primaryKey jobInfos ''j1'' \<mapsto> ''j1'' @ [CHR 0x0A] @ ''p1'',
      indexKey jobInfos pipelineIndex ''p1'' ''j1'' \<mapsto> ''j1'' @ [CHR 0x0A] @ ''p1''] =
   (Inr (),
    [primaryKey jobInfos ''j1'' \<mapsto> ''j1'' @ [CHR 0x0A] @ ''p1'',
     indexKey jobInfos pipelineIndex ''p1'' ''j1'' \<mapsto> ''j1'' @ [CHR 0x0A] @ ''p1''],
    []) \<and>
   fst (snd (RunTransaction (Put jobInfos ''j1'' j1) Map.empty)) =
    [primaryKey jobInfos ''j1'' \<mapsto> ''j1'' @ [CHR 0x0A] @ ''p1'',
     indexKey jobInfos pipelineIndex ''p1'' ''j1'' \<mapsto> ''j1'' @ [CHR 0x0A] @ ''p1'']"
proof -
  let ?db = "[primaryKey jobInfos ''j1'' \<mapsto> ''j1'' @ [CHR 0x0A] @ ''p1'',
      indexKey jobInfos pipelineIndex ''p1'' ''j1'' \<mapsto> ''j1'' @ [CHR 0x0A] @ ''p1'']"
  have ne: "indexKey jobInfos pipelineIndex ''p1'' ''j1'' \<noteq> primaryKey jobInfos ''j1''"
    using primaryKey_ne_indexKey [of "''j1''" jobInfos pipelineIndex "''p1''" "''j1''"]
    by simp
  have 1: "?db (primaryKey jobInfos ''j1'') = Some (''j1'' @ [CHR 0x0A] @ ''p1'')"
    using ne by simp
  have 2: "decode jobInfos (''j1'' @ [CHR 0x0A] @ ''p1'') = Some j1"
    by (simp add: jobInfos_def decodeJobInfo_def j1_def)
  have 3: "encode jobInfos j1 = Some (''j1'' @ [CHR 0x0A] @ ''p1'')"
    by (simp add: jobInfos_def encodeJobInfo_def j1_def)
  have a: "RunTransaction (Put jobInfos ''j1'' j1) ?db = (Inr (), ?db, [])"
    using Put_identical_is_noop [of ?db jobInfos "''j1''" _ j1 j1] 1 2 3 by blast
  have "indexes jobInfos = [pipelineIndex]"
    and "selector pipelineIndex = Single (\<lambda>j. RefV [Pipeline j])"
    by (simp_all add: jobInfos_def pipelineIndex_def)
  then have "RunTransaction (Put jobInfos ''j1'' j1) Map.empty =
      (Inr (),
       [primaryKey jobInfos ''j1'' \<mapsto> ''j1'' @ [CHR 0x0A] @ ''p1'',
        indexKey jobInfos pipelineIndex (stringify (RefV [Pipeline j1])) ''j1'' \<mapsto>
          ''j1'' @ [CHR 0x0A] @ ''p1''],
       [RawPut (primaryKey jobInfos ''j1'') (''j1'' @ [CHR 0x0A] @ ''p1''),
        RawPut (indexKey jobInfos pipelineIndex (stringify (RefV [Pipeline j1])) ''j1'')
          (''j1'' @ [CHR 0x0A] @ ''p1'')])"
    using 3 by (intro Put_fresh) simp_all
  then have b: "fst (snd (RunTransaction (Put jobInfos ''j1'' j1) Map.empty)) = ?db"
    by (simp add: j1_def)
  from a b show ?thesis by blast
qed

subsection \<open>The event sequence of an index watcher\<close>

text \<open>
  C4. A collection with one single-valued index, two different ids without a separator
  that are not stored yet, items \<open>x1\<close> and \<open>x2\<close> with the indexed value \<open>v\<close> and an item
  \<open>x1'\<close> whose indexed value does not lie within the sub-namespace of \<open>v\<close>, all three
  round-tripping through the codec. A watcher subscribed to the index value \<open>v\<close> that
  follows the transactions Put(a, x1), Put(a, x1) again, Put(b, x2), Put(a, x1'),
  Delete(b) receives, transaction by transaction: a Put event for (a, x1); nothing; a
  Put event for (b, x2); a Delete event for a; a Delete event for b; on its channel
  that is the sequence Put(a, x1), Put(b, x2), Delete(a), Delete(b). After the fourth
  transaction, whose commit gave the Delete event for a, the record a is still stored,
  with the item \<open>x1'\<close>.
\<close>

theorem index_watch_event_sequence:
  assumes idx: "indexes sc = [idx]" "selector idx = Single f"
    and ids: "a \<noteq> b" "CHR ''/'' \<notin> set a" "CHR ''/'' \<notin> set b"
    and fresh: "db (primaryKey sc a) = None" "db (primaryKey sc b) = None"
    and vals: "f x1 = v" "f x2 = v" "\<not> fragmentWithin (stringify (f x1')) (stringify v)"
    and codec: "roundTrips sc x1" "roundTrips sc x2" "roundTrips sc x1'"
  shows "fst (follow sc (WatchByIndex sc idx v) db
            [Put sc a x1, Put sc a x1, Put sc b x2, Put sc a x1', Delete sc b]) =
           [[EventPut a x1], [], [EventPut b x2], [EventDelete a], [EventDelete b]] \<and>
         concat (fst (follow sc (WatchByIndex sc idx v) db
            [Put sc a x1, Put sc a x1, Put sc b x2, Put sc a x1', Delete sc b])) =
           [EventPut a x1, EventPut b x2, EventDelete a, EventDelete b] \<and>
         Get sc a \<lparr>snapshot = snd (follow sc (WatchByIndex sc idx v) db
                       [Put sc a x1, Put sc a x1, Put sc b x2, Put sc a x1']),
                   staged = []\<rparr> = Inr x1'"
proof -
  obtain p1 where p1: "encode sc x1 = Some p1" "decode sc p1 = Some x1"
    using codec(1) by (auto simp: roundTrips_def split: option.splits)
  obtain p2 where p2: "encode sc x2 = Some p2" "decode sc p2 = Some x2"
    using codec(2) by (auto simp: roundTrips_def split: option.splits)
  obtain p1' where p1': "encode sc x1' = Some p1'" "decode sc p1' = Some x1'"
    using codec(3) by (auto simp: roundTrips_def split: option.splits)
  define s where "s = stringify v"
  define s' where "s' = stringify (f x1')"
  define pa where "pa = primaryKey sc a"
  define pb where "pb = primaryKey sc b"
  define ia where "ia = indexKey sc idx s a"
  define ib where "ib = indexKey sc idx s b"
  define ia' where "ia' = indexKey sc idx s' a"
  define dir where "dir = indexDir sc idx s"
  have s_ne: "s \<noteq> s'"
    using vals(3) by (auto simp: fragmentWithin_def s_def s'_def)
  have x_ne: "p1 \<noteq> p1'"
    using p1 p1' s_ne vals(1) by (auto simp: s_def s'_def)
  have keys: "pa \<noteq> pb" "pa \<noteq> ia" "pa \<noteq> ib" "pa \<noteq> ia'" "pb \<noteq> ia" "pb \<noteq> ib" "pb \<noteq> ia'"
    "ia \<noteq> ib"
    using ids by (simp_all add: pa_def pb_def ia_def ib_def ia'_def primaryKey_ne_indexKey)
  have seg: "trailingSegment ia = a" "trailingSegment ib = b"
    using ids by (simp_all add: ia_def ib_def trailingSegment_indexKey)
  have "\<not> prefix (s @ ''/'') (s' @ ''/'' @ a)"
    using vals(3) prefix_slash_id [OF ids(2), of s s']
    unfolding fragmentWithin_def s_def s'_def by blast
  then have "\<not> prefix dir ia'"
    unfolding dir_def ia'_def indexDir_prefix_indexKey_iff .
  moreover have "\<not> prefix dir pa" "\<not> prefix dir pb"
    using ids by (simp_all add: dir_def pa_def pb_def indexDir_not_prefix_primaryKey)
  ultimately have out: "\<not> prefix dir pa" "\<not> prefix dir pb" "\<not> prefix dir ia'"
    by blast+
  have inside: "prefix dir ia" "prefix dir ib"
    by (simp_all add: dir_def ia_def ib_def indexDir_prefix_indexKey)
  define db1 where "db1 = db(pa \<mapsto> p1, ia \<mapsto> p1)"
  define db3 where "db3 = db1(pb \<mapsto> p2, ib \<mapsto> p2)"
  define db4 where "db4 = (db3(pa \<mapsto> p1', ia := None))(ia' \<mapsto> p1')"
  define db5 where "db5 = db4(pb := None, ib := None)"
  have r1: "RunTransaction (Put sc a x1) db = (Inr (), db1, [RawPut pa p1, RawPut ia p1])"
    using Put_fresh [OF _ p1(1) idx, of db a] fresh(1) vals(1)
    by (simp add: db1_def pa_def ia_def s_def)
  have "db1 pa = Some p1"
    using keys by (simp add: db1_def)
  then have r2: "RunTransaction (Put sc a x1) db1 = (Inr (), db1, [])"
    using Put_identical_run [of db1 sc a p1 x1 x1] p1 by (simp add: pa_def)
  have "db1 pb = None"
    using keys fresh(2) by (simp add: db1_def pb_def)
  then have r3: "RunTransaction (Put sc b x2) db1 = (Inr (), db3, [RawPut pb p2, RawPut ib p2])"
    using Put_fresh [OF _ p2(1) idx, of db1 b] vals(2)
    by (simp add: db3_def pb_def ib_def s_def)
  have "db3 pa = Some p1"
    using keys by (simp add: db3_def db1_def)
  then have r4: "RunTransaction (Put sc a x1') db3 =
      (Inr (), db4, [RawPut pa p1', RawDelete ia, RawPut ia' p1'])"
    using Put_moved [OF _ p1(2) p1'(1) x_ne idx, of db3 a] s_ne vals(1)
    by (simp add: db4_def pa_def ia_def ia'_def s_def s'_def)
  have "db4 pb = Some p2"
    using keys by (simp add: db4_def db3_def)
  then have r5: "RunTransaction (Delete sc b) db4 = (Inr (), db5, [RawDelete pb, RawDelete ib])"
    using Delete_stored [OF _ p2(2) idx, of db4 b] vals(2)
    by (simp add: db5_def pb_def ib_def s_def)
  have w0: "WatchByIndex sc idx v = \<lparr>scope = Prefix dir, lastDelivered = Map.empty\<rparr>"
    by (simp add: WatchByIndex_def dir_def s_def)
  define w1 where "w1 = \<lparr>scope = Prefix dir, lastDelivered = [ia \<mapsto> p1]\<rparr>"
  define w3 where "w3 = \<lparr>scope = Prefix dir, lastDelivered = [ia \<mapsto> p1, ib \<mapsto> p2]\<rparr>"
  define w4 where "w4 = \<lparr>scope = Prefix dir, lastDelivered = [ia \<mapsto> p1, ib \<mapsto> p2](ia := None)\<rparr>"
  define w5 where "w5 = \<lparr>scope = Prefix dir,
      lastDelivered = ([ia \<mapsto> p1, ib \<mapsto> p2](ia := None))(ib := None)\<rparr>"
  have d1: "deliver sc (WatchByIndex sc idx v) [RawPut pa p1, RawPut ia p1] =
      (w1, [EventPut a x1])"
    using out inside by (simp add: w0 w1_def seg p1)
  have d3: "deliver sc w1 [RawPut pb p2, RawPut ib p2] = (w3, [EventPut b x2])"
    using out inside keys(8) [symmetric] by (simp add: w1_def w3_def seg p2)
  have d4: "deliver sc w3 [RawPut pa p1', RawDelete ia, RawPut ia' p1'] =
      (w4, [EventDelete a])"
    using out inside by (simp add: w3_def w4_def seg)
  have d5: "deliver sc w4 [RawDelete pb, RawDelete ib] = (w5, [EventDelete b])"
    using out inside by (simp add: w4_def w5_def seg)
  have events: "fst (follow sc (WatchByIndex sc idx v) db
            [Put sc a x1, Put sc a x1, Put sc b x2, Put sc a x1', Delete sc b]) =
           [[EventPut a x1], [], [EventPut b x2], [EventDelete a], [EventDelete b]]"
    by (simp only: follow.simps r1 r2 r3 r4 r5 d1 d3 d4 d5 deliver.simps(1) prod.case fst_conv)
  have "snd (follow sc (WatchByIndex sc idx v) db
            [Put sc a x1, Put sc a x1, Put sc b x2, Put sc a x1']) = db4"
    by (simp only: follow.simps r1 r2 r3 r4 d1 d3 d4 deliver.simps(1) prod.case snd_conv)
  moreover have "db4 pa = Some p1'"
    using keys by (simp add: db4_def)
  ultimately have "Get sc a \<lparr>snapshot = snd (follow sc (WatchByIndex sc idx v) db
                       [Put sc a x1, Put sc a x1, Put sc b x2, Put sc a x1']),
                   staged = []\<rparr> = Inr x1'"
    using p1' by (simp add: Get_def pa_def)
  moreover have "concat (fst (follow sc (WatchByIndex sc idx v) db
            [Put sc a x1, Put sc a x1, Put sc b x2, Put sc a x1', Delete sc b])) =
           [EventPut a x1, EventPut b x2, EventDelete a, EventDelete b]"
    unfolding events by simp
  ultimately show ?thesis
    using events by blast
qed

theorem index_watch_event_sequence_witness:
  "fst (follow jobInfos (WatchByIndex jobInfos pipelineIndex (RefV [''p1''])) Map.empty
          [Put jobInfos ''j1'' j1, Put jobInfos ''j1'' j1, Put jobInfos ''j2'' j2,
           Put jobInfos ''j1'' j1Prime, Delete jobInfos ''j2'']) =
     [[EventPut ''j1'' j1], [], [EventPut ''j2'' j2], [EventDelete ''j1''],
      [EventDelete ''j2'']] \<and>
   concat (fst (follow jobInfos (WatchByIndex jobInfos pipelineIndex (RefV [''p1''])) Map.empty
          [Put jobInfos ''j1'' j1, Put jobInfos ''j1'' j1, Put jobInfos ''j2'' j2,
           Put jobInfos ''j1'' j1Prime, Delete jobInfos ''j2''])) =
     [EventPut ''j1'' j1, EventPut ''j2'' j2, EventDelete ''j1'', EventDelete ''j2''] \<and>
   Get jobInfos ''j1''
     \<lparr>snapshot = snd (follow jobInfos (WatchByIndex jobInfos pipelineIndex (RefV [''p1'']))
                       Map.empty
                       [Put jobInfos ''j1'' j1, Put jobInfos ''j1'' j1, Put jobInfos ''j2'' j2,
                        Put jobInfos ''j1'' j1Prime]),
      staged = []\<rparr> = Inr j1Prime"
proof (rule index_watch_event_sequence [where f = "\<lambda>j. RefV [Pipeline j]"])
  show "indexes jobInfos = [pipelineIndex]"
    by (simp add: jobInfos_def)
  show "selector pipelineIndex = Single (\<lambda>j. RefV [Pipeline j])"
    by (simp add: pipelineIndex_def)
  show "''j1'' \<noteq> ''j2''" and "CHR ''/'' \<notin> set ''j1''" and "CHR ''/'' \<notin> set ''j2''"
    by simp_all
  show "Map.empty (primaryKey jobInfos ''j1'') = None"
    and "Map.empty (primaryKey jobInfos ''j2'') = None"
    by simp_all
  show "RefV [Pipeline j1] = RefV [''p1'']" and "RefV [Pipeline j2] = RefV [''p1'']"
    by (simp_all add: j1_def j2_def)
  show "\<not> fragmentWithin (stringify (RefV [Pipeline j1Prime])) (stringify (RefV [''p1'']))"
    by (simp add: fragmentWithin_def j1Prime_def)
  show "roundTrips jobInfos j1" and "roundTrips jobInfos j2" and "roundTrips jobInfos j1Prime"
    by (simp_all add: roundTrips_def jobInfos_def encodeJobInfo_def decodeJobInfo_def
        j1_def j2_def j1Prime_def)
qed

end
